theory Spec2Isabelle
  imports Main
begin

section \<open>The request runner of \<^verbatim>\<open>hello_app/hello_main.py\<close>\<close>

text \<open>
  The module imports the \<^verbatim>\<open>requests\<close> library, defines one function \<^verbatim>\<open>main\<close> and
  calls it under the \<^verbatim>\<open>__main__\<close> guard. \<^verbatim>\<open>main\<close> makes three kinds of calls that
  leave the program: \<^verbatim>\<open>requests.get\<close>, \<^verbatim>\<open>response.json()\<close> and \<^verbatim>\<open>print\<close>. The
  embedding threads a trace of these calls through the function, in the order in which
  they are made, and takes what the first two answer as parameters, since their code
  belongs to the library and the network and not to this repository.
\<close>

subsection \<open>Data\<close>

text \<open>What \<^verbatim>\<open>main\<close> reads of a response: the attribute \<^verbatim>\<open>status_code\<close> (a Python
  integer), and the body, which only \<^verbatim>\<open>response.json()\<close> looks at.\<close>

record response =
  status_code :: int
  body :: string

text \<open>A call of \<^verbatim>\<open>requests.get\<close>: the positional argument and the keyword arguments
  (\<^verbatim>\<open>params\<close>, \<^verbatim>\<open>headers\<close>, \<^verbatim>\<open>data\<close>, \<^verbatim>\<open>timeout\<close>, ...) by name.\<close>

record get_call =
  target :: string
  kwargs :: "(string \<times> string) list"

datatype event = Get get_call | Print string | Json response

text \<open>A Python call either returns or raises; an exception nobody catches ends the
  run. The exceptions are those of the library, of type \<open>'e\<close>.\<close>

datatype 'e outcome = Returned | Raised 'e

text \<open>The library: what \<^verbatim>\<open>response.json()\<close> gives for a response (the parsed value, or
  the exception it raises when the body is not JSON), and the text \<^verbatim>\<open>print\<close> writes for
  a parsed value (Python's \<^verbatim>\<open>str\<close>).\<close>

record ('e, 'j) library =
  json :: "response \<Rightarrow> 'e + 'j"
  str :: "'j \<Rightarrow> string"

text \<open>The network, seen through \<^verbatim>\<open>requests.get\<close>: a response, or the exception raised
  when none arrives.\<close>

type_synonym 'e network = "get_call \<Rightarrow> 'e + response"

subsection \<open>The three calls\<close>

definition requests_get ::
  "'e network \<Rightarrow> string \<Rightarrow> event list \<Rightarrow> ('e + response) \<times> event list" where
  "requests_get net u tr =
     (let c = \<lparr>target = u, kwargs = []\<rparr> in (net c, tr @ [Get c]))"

definition response_json ::
  "('e, 'j) library \<Rightarrow> response \<Rightarrow> event list \<Rightarrow> ('e + 'j) \<times> event list" where
  "response_json lib r tr = (json lib r, tr @ [Json r])"

definition print :: "string \<Rightarrow> event list \<Rightarrow> event list" where
  "print x tr = tr @ [Print x]"

subsection \<open>The function \<^verbatim>\<open>main\<close>\<close>

definition main ::
  "('e, 'j) library \<Rightarrow> 'e network \<Rightarrow> event list \<Rightarrow> 'e outcome \<times> event list" where
  "main lib net tr0 =
     (let url = ''https://api.github.com'' in
      case requests_get net url tr0 of
        (Inl e, tr1) \<Rightarrow> (Raised e, tr1)
      | (Inr response, tr1) \<Rightarrow>
          if status_code response = 200 then
            (let tr2 = print ''Success! API data received:'' tr1 in
             case response_json lib response tr2 of
               (Inl e, tr3) \<Rightarrow> (Raised e, tr3)
             | (Inr v, tr3) \<Rightarrow> (Returned, print (str lib v) tr3))
          else (Returned, print ''Failed to retrieve data.'' tr1))"

subsection \<open>What a run leaves behind\<close>

text \<open>Standard output is the text of the \<^verbatim>\<open>print\<close> calls, each followed by a newline;
  the requests that went out are the \<^verbatim>\<open>requests.get\<close> calls; the parsed bodies are the
  \<^verbatim>\<open>response.json()\<close> calls.\<close>

fun stdout :: "event list \<Rightarrow> string" where
  "stdout [] = []"
| "stdout (Print x # tr) = x @ [CHR 0x0A] @ stdout tr"
| "stdout (ev # tr) = stdout tr"

fun requests_sent :: "event list \<Rightarrow> get_call list" where
  "requests_sent [] = []"
| "requests_sent (Get c # tr) = c # requests_sent tr"
| "requests_sent (ev # tr) = requests_sent tr"

fun json_calls :: "event list \<Rightarrow> response list" where
  "json_calls [] = []"
| "json_calls (Json r # tr) = r # json_calls tr"
| "json_calls (ev # tr) = json_calls tr"

text \<open>The one call \<^verbatim>\<open>main\<close> makes of \<^verbatim>\<open>requests.get\<close>: the URL and nothing else.\<close>

definition api_request :: get_call where
  "api_request = \<lparr>target = ''https://api.github.com'', kwargs = []\<rparr>"

subsection \<open>The module and the script\<close>

text \<open>Executing the module's top level, with \<^verbatim>\<open>__name__\<close> as \<open>name\<close>: the import and
  the \<^verbatim>\<open>def\<close> make no call, and the last two lines call \<^verbatim>\<open>main\<close> under the guard.
  The library is taken as installed, so that the import succeeds.\<close>

definition hello_main ::
  "string \<Rightarrow> ('e, 'j) library \<Rightarrow> 'e network \<Rightarrow> event list \<Rightarrow> 'e outcome \<times> event list" where
  "hello_main name lib net tr =
     (if name = ''__main__'' then main lib net tr else (Returned, tr))"

text \<open>A process running the file as a script: Python sets \<^verbatim>\<open>__name__\<close> to
  \<^verbatim>\<open>__main__\<close> and the trace starts empty. The command line and the environment are
  there for the program to read; no line of the file does.\<close>

record process =
  argv :: "string list"
  environ :: "(string \<times> string) list"

definition run_script ::
  "process \<Rightarrow> ('e, 'j) library \<Rightarrow> 'e network \<Rightarrow> 'e outcome \<times> event list" where
  "run_script p lib net = hello_main ''__main__'' lib net []"

text \<open>The interpreter's exit status: 0 when the script runs to its end, 1 when an
  exception reaches the top level.\<close>

fun exit_code :: "'e outcome \<Rightarrow> int" where
  "exit_code Returned = 0"
| "exit_code (Raised e) = 1"

subsection \<open>Test doubles\<close>

text \<open>A library that knows the JSON literals \<^verbatim>\<open>true\<close> and \<^verbatim>\<open>false\<close> only, printed the
  way Python prints booleans, and raises on every other body; an endpoint that answers
  every call with a given status and body; an endpoint that answers the API's URL only;
  and a host that cannot be reached.\<close>

definition mock_json :: "response \<Rightarrow> string + bool" where
  "mock_json r =
     (if body r = ''true'' then Inr True
      else if body r = ''false'' then Inr False
      else Inl ''JSONDecodeError'')"

definition mock_str :: "bool \<Rightarrow> string" where
  "mock_str b = (if b then ''True'' else ''False'')"

definition mock_lib :: "(string, bool) library" where
  "mock_lib = \<lparr>json = mock_json, str = mock_str\<rparr>"

definition mock_endpoint :: "int \<Rightarrow> string \<Rightarrow> string network" where
  "mock_endpoint code b c = Inr \<lparr>status_code = code, body = b\<rparr>"

definition github_only :: "int \<Rightarrow> string \<Rightarrow> string network" where
  "github_only code b c =
     (if target c = ''https://api.github.com'' then Inr \<lparr>status_code = code, body = b\<rparr>
      else Inl ''ConnectionError'')"

definition unreachable_host :: "string network" where
  "unreachable_host c = Inl ''ConnectionError''"

section \<open>Properties\<close>

subsection \<open>The trace of each path through \<^verbatim>\<open>main\<close>\<close>

lemma stdout_append: "stdout (xs @ ys) = stdout xs @ stdout ys"
  by (induction xs rule: stdout.induct) simp_all

lemma requests_sent_append: "requests_sent (xs @ ys) = requests_sent xs @ requests_sent ys"
  by (induction xs rule: requests_sent.induct) simp_all

lemma json_calls_append: "json_calls (xs @ ys) = json_calls xs @ json_calls ys"
  by (induction xs rule: json_calls.induct) simp_all

lemma main_transport_fault:
  assumes "net api_request = Inl e"
  shows "main lib net tr = (Raised e, tr @ [Get api_request])"
  using assms
  by (simp add: main_def requests_get_def api_request_def)

lemma main_not_200:
  assumes "net api_request = Inr r" and "status_code r \<noteq> 200"
  shows "main lib net tr =
    (Returned, tr @ [Get api_request, Print ''Failed to retrieve data.''])"
  using assms
  by (simp add: main_def requests_get_def print_def api_request_def)

lemma main_200_parsed:
  assumes "net api_request = Inr r" and "status_code r = 200" and "json lib r = Inr v"
  shows "main lib net tr =
    (Returned, tr @ [Get api_request, Print ''Success! API data received:'', Json r,
                     Print (str lib v)])"
  using assms
  by (simp add: main_def requests_get_def response_json_def print_def api_request_def)

lemma main_200_parse_fault:
  assumes "net api_request = Inr r" and "status_code r = 200" and "json lib r = Inl e"
  shows "main lib net tr =
    (Raised e, tr @ [Get api_request, Print ''Success! API data received:'', Json r])"
  using assms
  by (simp add: main_def requests_get_def response_json_def print_def api_request_def)

lemma mock_endpoint_answer:
  "mock_endpoint code b api_request = Inr \<lparr>status_code = code, body = b\<rparr>"
  by (simp add: mock_endpoint_def)

lemma github_only_answer:
  "github_only code b api_request = Inr \<lparr>status_code = code, body = b\<rparr>"
  by (simp add: github_only_def api_request_def)

lemma mock_lib_true: "json mock_lib \<lparr>status_code = code, body = ''true''\<rparr> = Inr True"
  by (simp add: mock_lib_def mock_json_def)

lemma mock_lib_not_json:
  "json mock_lib \<lparr>status_code = code, body = ''not-json''\<rparr> = Inl ''JSONDecodeError''"
  by (simp add: mock_lib_def mock_json_def)

lemma mock_lib_str: "str mock_lib True = ''True''"
  by (simp add: mock_lib_def mock_str_def)

subsection \<open>Status 200 with a JSON body\<close>

text \<open>
  C1. When the response has status code 200 and its body is valid JSON, that is
  \<^verbatim>\<open>response.json()\<close> returns a value, \<^verbatim>\<open>main\<close> returns normally, having printed the
  success line and then the parsed value, in that order and nothing else: these two
  are the only \<^verbatim>\<open>print\<close> calls of the run.
\<close>

theorem main_200_prints_success_then_json:
  assumes "net api_request = Inr r" and "status_code r = 200" and "json lib r = Inr v"
  shows "fst (main lib net tr) = Returned
    \<and> snd (main lib net tr) =
        tr @ [Get api_request, Print ''Success! API data received:'', Json r,
              Print (str lib v)]
    \<and> stdout (snd (main lib net tr)) =
        stdout tr @ ''Success! API data received:'' @ [CHR 0x0A] @ str lib v @ [CHR 0x0A]"
proof -
  have m: "main lib net tr =
      (Returned, tr @ [Get api_request, Print ''Success! API data received:'', Json r,
                       Print (str lib v)])"
    using assms by (rule main_200_parsed)
  show ?thesis
    unfolding m by (simp add: stdout_append)
qed

theorem main_200_prints_success_then_json_witness:
  "fst (main mock_lib (mock_endpoint 200 ''true'') []) = Returned
   \<and> stdout (snd (main mock_lib (mock_endpoint 200 ''true'') [])) =
       ''Success! API data received:'' @ [CHR 0x0A] @ ''True'' @ [CHR 0x0A]"
proof -
  have a: "mock_endpoint 200 ''true'' api_request = Inr \<lparr>status_code = 200, body = ''true''\<rparr>"
    by (rule mock_endpoint_answer)
  have b: "status_code \<lparr>status_code = 200, body = ''true''\<rparr> = 200"
    by simp
  have c: "json mock_lib \<lparr>status_code = 200, body = ''true''\<rparr> = Inr True"
    by (rule mock_lib_true)
  show ?thesis
    using main_200_prints_success_then_json
      [where net = "mock_endpoint 200 ''true''" and lib = mock_lib and tr = "[]", OF a b c]
    by (simp add: mock_lib_str)
qed

subsection \<open>Any other status\<close>

text \<open>
  C2. When the status code of the response is not 200, \<^verbatim>\<open>main\<close> returns normally,
  having printed the line \<^verbatim>\<open>Failed to retrieve data.\<close> and nothing else, and
  \<^verbatim>\<open>response.json()\<close> is not called: the body is never parsed.
\<close>

theorem main_not_200_prints_failure_only:
  assumes "net api_request = Inr r" and "status_code r \<noteq> 200"
  shows "fst (main lib net tr) = Returned
    \<and> snd (main lib net tr) = tr @ [Get api_request, Print ''Failed to retrieve data.'']
    \<and> stdout (snd (main lib net tr)) = stdout tr @ ''Failed to retrieve data.'' @ [CHR 0x0A]
    \<and> json_calls (snd (main lib net tr)) = json_calls tr"
proof -
  have m: "main lib net tr =
      (Returned, tr @ [Get api_request, Print ''Failed to retrieve data.''])"
    using assms by (rule main_not_200)
  show ?thesis
    unfolding m by (simp add: stdout_append json_calls_append)
qed

theorem main_not_200_prints_failure_only_witness:
  "stdout (snd (main mock_lib (mock_endpoint 404 ''true'') [])) =
     ''Failed to retrieve data.'' @ [CHR 0x0A]
   \<and> json_calls (snd (main mock_lib (mock_endpoint 404 ''true'') [])) = []
   \<and> fst (main mock_lib (mock_endpoint 404 ''true'') []) = Returned"
proof -
  have a: "mock_endpoint 404 ''true'' api_request = Inr \<lparr>status_code = 404, body = ''true''\<rparr>"
    by (rule mock_endpoint_answer)
  have b: "status_code \<lparr>status_code = 404, body = ''true''\<rparr> \<noteq> 200"
    by simp
  show ?thesis
    using main_not_200_prints_failure_only
      [where net = "mock_endpoint 404 ''true''" and lib = mock_lib and tr = "[]", OF a b]
    by simp
qed

text \<open>
  C9. The test is equality with 200: for every other status code of the 2xx range
  (201, 204, 206, ...) \<^verbatim>\<open>main\<close> takes the \<^verbatim>\<open>else\<close> branch and prints the failure line,
  not the success line.
\<close>

theorem main_other_2xx_is_failure:
  assumes "net api_request = Inr r"
    and "200 < status_code r" and "status_code r < 300"
  shows "main lib net tr =
      (Returned, tr @ [Get api_request, Print ''Failed to retrieve data.''])
    \<and> stdout (snd (main lib net tr)) = stdout tr @ ''Failed to retrieve data.'' @ [CHR 0x0A]"
proof -
  from assms(2) have "status_code r \<noteq> 200"
    by simp
  with assms(1) have m: "main lib net tr =
      (Returned, tr @ [Get api_request, Print ''Failed to retrieve data.''])"
    by (rule main_not_200)
  show ?thesis
    unfolding m by (simp add: stdout_append)
qed

theorem main_other_2xx_is_failure_witness:
  "main mock_lib (mock_endpoint 204 ''true'') [] =
     (Returned, [Get api_request, Print ''Failed to retrieve data.''])
   \<and> stdout (snd (main mock_lib (mock_endpoint 204 ''true'') [])) =
     ''Failed to retrieve data.'' @ [CHR 0x0A]"
proof -
  have a: "mock_endpoint 204 ''true'' api_request = Inr \<lparr>status_code = 204, body = ''true''\<rparr>"
    by (rule mock_endpoint_answer)
  have b: "200 < status_code \<lparr>status_code = 204, body = ''true''\<rparr>"
    by simp
  have c: "status_code \<lparr>status_code = 204, body = ''true''\<rparr> < 300"
    by simp
  show ?thesis
    using main_other_2xx_is_failure
      [where net = "mock_endpoint 204 ''true''" and lib = mock_lib and tr = "[]", OF a b c]
    by simp
qed

subsection \<open>Status 200 with a body that is not JSON\<close>

text \<open>
  C8. When the status code is 200, the success line is printed before
  \<^verbatim>\<open>response.json()\<close> is called: in the trace the \<^verbatim>\<open>print\<close> of the success line comes
  right after the request and right before the parse, whatever the parse gives. So when
  the parse raises, the success line is already on standard output.
\<close>

theorem success_line_precedes_parse:
  assumes "net api_request = Inr r" and "status_code r = 200"
  shows "(\<exists>rest. snd (main lib net tr) =
            tr @ [Get api_request, Print ''Success! API data received:'', Json r] @ rest)
    \<and> (\<forall>e. json lib r = Inl e \<longrightarrow>
          main lib net tr =
            (Raised e, tr @ [Get api_request, Print ''Success! API data received:'', Json r]))"
proof (intro conjI allI impI)
  show "\<exists>rest. snd (main lib net tr) =
      tr @ [Get api_request, Print ''Success! API data received:'', Json r] @ rest"
  proof (cases "json lib r")
    case (Inl e)
    with assms have "main lib net tr =
        (Raised e, tr @ [Get api_request, Print ''Success! API data received:'', Json r])"
      by (rule main_200_parse_fault)
    then show ?thesis by simp
  next
    case (Inr v)
    with assms have "main lib net tr =
        (Returned, tr @ [Get api_request, Print ''Success! API data received:'', Json r,
                         Print (str lib v)])"
      by (rule main_200_parsed)
    then show ?thesis by simp
  qed
next
  fix e
  assume "json lib r = Inl e"
  with assms show "main lib net tr =
      (Raised e, tr @ [Get api_request, Print ''Success! API data received:'', Json r])"
    by (rule main_200_parse_fault)
qed

theorem success_line_precedes_parse_witness:
  "main mock_lib (mock_endpoint 200 ''not-json'') [] =
     (Raised ''JSONDecodeError'',
      [Get api_request, Print ''Success! API data received:'',
       Json \<lparr>status_code = 200, body = ''not-json''\<rparr>])"
proof -
  have a: "mock_endpoint 200 ''not-json'' api_request =
      Inr \<lparr>status_code = 200, body = ''not-json''\<rparr>"
    by (rule mock_endpoint_answer)
  have b: "status_code \<lparr>status_code = 200, body = ''not-json''\<rparr> = 200"
    by simp
  have c: "json mock_lib \<lparr>status_code = 200, body = ''not-json''\<rparr> = Inl ''JSONDecodeError''"
    by (rule mock_lib_not_json)
  show ?thesis
    using success_line_precedes_parse
      [where net = "mock_endpoint 200 ''not-json''" and lib = mock_lib and tr = "[]", OF a b]
      c
    by simp
qed

text \<open>
  C3, as the code has it. When the status code is 200 and the body is not valid JSON,
  that is \<^verbatim>\<open>response.json()\<close> raises, the exception leaves \<^verbatim>\<open>main\<close> uncaught and ends
  the script with a non-zero exit status. The success line has been printed before the
  parse, and it is all that standard output holds: the body is not printed.
\<close>

theorem parse_fault_propagates_after_success_line:
  assumes "net api_request = Inr r" and "status_code r = 200" and "json lib r = Inl e"
  shows "fst (run_script p lib net) = Raised e
    \<and> exit_code (fst (run_script p lib net)) = 1
    \<and> stdout (snd (run_script p lib net)) = ''Success! API data received:'' @ [CHR 0x0A]"
proof -
  have "main lib net [] =
      (Raised e, [] @ [Get api_request, Print ''Success! API data received:'', Json r])"
    using assms by (rule main_200_parse_fault)
  then have "run_script p lib net =
      (Raised e, [Get api_request, Print ''Success! API data received:'', Json r])"
    by (simp add: run_script_def hello_main_def)
  then show ?thesis
    by simp
qed

theorem parse_fault_propagates_after_success_line_witness:
  "fst (run_script \<lparr>argv = [''hello_main.py''], environ = []\<rparr> mock_lib
          (mock_endpoint 200 ''not-json'')) = Raised ''JSONDecodeError''
   \<and> exit_code (fst (run_script \<lparr>argv = [''hello_main.py''], environ = []\<rparr> mock_lib
          (mock_endpoint 200 ''not-json''))) = 1"
proof -
  have a: "mock_endpoint 200 ''not-json'' api_request =
      Inr \<lparr>status_code = 200, body = ''not-json''\<rparr>"
    by (rule mock_endpoint_answer)
  have b: "status_code \<lparr>status_code = 200, body = ''not-json''\<rparr> = 200"
    by simp
  have c: "json mock_lib \<lparr>status_code = 200, body = ''not-json''\<rparr> = Inl ''JSONDecodeError''"
    by (rule mock_lib_not_json)
  show ?thesis
    using parse_fault_propagates_after_success_line
      [where net = "mock_endpoint 200 ''not-json''" and lib = mock_lib
         and p = "\<lparr>argv = [''hello_main.py''], environ = []\<rparr>", OF a b c]
    by simp
qed

text \<open>
  The claim C3 as it is written, that no success message is printed on this path, fails:
  with an endpoint that answers 200 and the body \<^verbatim>\<open>not-json\<close>, the parse raises and
  standard output holds the success line.
\<close>

theorem no_success_message_counterexample:
  "status_code \<lparr>status_code = 200, body = ''not-json''\<rparr> = 200
   \<and> mock_endpoint 200 ''not-json'' api_request =
       Inr \<lparr>status_code = 200, body = ''not-json''\<rparr>
   \<and> json mock_lib \<lparr>status_code = 200, body = ''not-json''\<rparr> = Inl ''JSONDecodeError''
   \<and> fst (main mock_lib (mock_endpoint 200 ''not-json'') []) = Raised ''JSONDecodeError''
   \<and> stdout (snd (main mock_lib (mock_endpoint 200 ''not-json'') [])) =
       ''Success! API data received:'' @ [CHR 0x0A]
   \<and> stdout (snd (main mock_lib (mock_endpoint 200 ''not-json'') [])) \<noteq> []"
  by (simp add: main_def requests_get_def response_json_def print_def mock_endpoint_def
      mock_lib_def mock_json_def api_request_def)

subsection \<open>No response at all\<close>

text \<open>
  C4. When \<^verbatim>\<open>requests.get\<close> raises (a DNS failure, a refused connection, a timeout, a
  TLS error: whatever the exception is), \<^verbatim>\<open>main\<close> does not catch it: the exception
  leaves \<^verbatim>\<open>main\<close> as it was raised, nothing has been printed before it, and the script
  ends with a non-zero exit status.
\<close>

theorem transport_fault_propagates_without_output:
  assumes "net api_request = Inl e"
  shows "main lib net tr = (Raised e, tr @ [Get api_request])
    \<and> stdout (snd (main lib net tr)) = stdout tr
    \<and> fst (run_script p lib net) = Raised e
    \<and> stdout (snd (run_script p lib net)) = []
    \<and> exit_code (fst (run_script p lib net)) = 1"
proof -
  have m: "main lib net tr = (Raised e, tr @ [Get api_request])" for tr
    using assms by (rule main_transport_fault)
  have "run_script p lib net = (Raised e, [Get api_request])"
    by (simp add: run_script_def hello_main_def m)
  then show ?thesis
    by (simp add: m stdout_append)
qed

theorem transport_fault_propagates_without_output_witness:
  "main mock_lib unreachable_host [] = (Raised ''ConnectionError'', [Get api_request])
   \<and> stdout (snd (run_script \<lparr>argv = [''hello_main.py''], environ = []\<rparr> mock_lib
          unreachable_host)) = []
   \<and> exit_code (fst (run_script \<lparr>argv = [''hello_main.py''], environ = []\<rparr> mock_lib
          unreachable_host)) = 1"
proof -
  have a: "unreachable_host api_request = Inl ''ConnectionError''"
    by (simp add: unreachable_host_def)
  show ?thesis
    using transport_fault_propagates_without_output
      [where net = unreachable_host and lib = mock_lib and tr = "[]"
         and p = "\<lparr>argv = [''hello_main.py''], environ = []\<rparr>", OF a]
    by simp
qed

subsection \<open>The request\<close>

lemma main_cases:
  obtains (transport) e where "net api_request = Inl e"
      and "main lib net tr = (Raised e, tr @ [Get api_request])"
  | (not_200) r where "net api_request = Inr r" and "status_code r \<noteq> 200"
      and "main lib net tr =
        (Returned, tr @ [Get api_request, Print ''Failed to retrieve data.''])"
  | (parse) r e where "net api_request = Inr r" and "status_code r = 200"
      and "json lib r = Inl e"
      and "main lib net tr =
        (Raised e, tr @ [Get api_request, Print ''Success! API data received:'', Json r])"
  | (parsed) r v where "net api_request = Inr r" and "status_code r = 200"
      and "json lib r = Inr v"
      and "main lib net tr =
        (Returned, tr @ [Get api_request, Print ''Success! API data received:'', Json r,
                         Print (str lib v)])"
proof (cases "net api_request")
  case (Inl e)
  have "main lib net tr = (Raised e, tr @ [Get api_request])"
    using Inl by (rule main_transport_fault)
  with Inl show ?thesis
    by (rule transport)
next
  case r: (Inr r)
  show ?thesis
  proof (cases "status_code r = 200")
    case False
    have "main lib net tr =
        (Returned, tr @ [Get api_request, Print ''Failed to retrieve data.''])"
      using r False by (rule main_not_200)
    with r False show ?thesis
      by (rule not_200)
  next
    case True
    show ?thesis
    proof (cases "json lib r")
      case (Inl e)
      have "main lib net tr =
          (Raised e, tr @ [Get api_request, Print ''Success! API data received:'', Json r])"
        using r True Inl by (rule main_200_parse_fault)
      with r True Inl show ?thesis
        by (rule parse)
    next
      case (Inr v)
      have "main lib net tr =
          (Returned, tr @ [Get api_request, Print ''Success! API data received:'', Json r,
                           Print (str lib v)])"
        using r True Inr by (rule main_200_parsed)
      with r True Inr show ?thesis
        by (rule parsed)
    qed
  qed
qed

lemma main_sends_one_request:
  "requests_sent (snd (main lib net tr)) = requests_sent tr @ [api_request]"
  by (cases rule: main_cases [of net lib tr]) (simp_all add: requests_sent_append)

text \<open>
  C5. Every run of the script, whatever the network answers and whatever the command
  line and the environment hold, sends exactly one request: a \<^verbatim>\<open>requests.get\<close> of
  \<^verbatim>\<open>https://api.github.com\<close> with no keyword argument (so no \<^verbatim>\<open>headers\<close>, \<^verbatim>\<open>data\<close>,
  \<^verbatim>\<open>params\<close> or \<^verbatim>\<open>timeout\<close>), and with no query string in the URL. There is no second
  attempt on any path. The run does not depend on the command line or the environment.
\<close>

theorem script_sends_exactly_one_get:
  "requests_sent (snd (run_script p lib net)) =
     [\<lparr>target = ''https://api.github.com'', kwargs = []\<rparr>]
   \<and> CHR ''?'' \<notin> set (target api_request)
   \<and> requests_sent (snd (main lib net tr)) = requests_sent tr @ [api_request]
   \<and> run_script p lib net = run_script p' lib net"
proof -
  have "requests_sent (snd (run_script p lib net)) = [api_request]"
    by (simp add: run_script_def hello_main_def main_sends_one_request)
  then show ?thesis
    by (simp add: api_request_def run_script_def main_sends_one_request)
qed

theorem script_sends_exactly_one_get_witness:
  "requests_sent (snd (run_script \<lparr>argv = [''hello_main.py'', ''--retries'', ''3''],
       environ = [(''TIMEOUT'', ''5'')]\<rparr> mock_lib unreachable_host)) =
     [\<lparr>target = ''https://api.github.com'', kwargs = []\<rparr>]"
  using script_sends_exactly_one_get
    [of "\<lparr>argv = [''hello_main.py'', ''--retries'', ''3''], environ = [(''TIMEOUT'', ''5'')]\<rparr>"
      mock_lib unreachable_host "[]" "\<lparr>argv = [], environ = []\<rparr>"]
  by (rule conjunct1)

subsection \<open>Exit status\<close>

text \<open>
  C6. The script exits with status 0 when \<^verbatim>\<open>main\<close> returns, which it does on both
  branches: after the failure line for a status other than 200, and after the parsed
  body for a status 200. The exit status is non-zero exactly when \<^verbatim>\<open>requests.get\<close>
  raised or, on a status 200, \<^verbatim>\<open>response.json()\<close> raised.
\<close>

theorem exit_code_nonzero_iff_fault:
  "(exit_code (fst (run_script p lib net)) \<noteq> 0 \<longleftrightarrow>
      (\<exists>e. net api_request = Inl e) \<or>
      (\<exists>r e. net api_request = Inr r \<and> status_code r = 200 \<and> json lib r = Inl e))
   \<and> (\<forall>r. net api_request = Inr r \<and> status_code r \<noteq> 200 \<longrightarrow>
         exit_code (fst (run_script p lib net)) = 0
         \<and> stdout (snd (run_script p lib net)) = ''Failed to retrieve data.'' @ [CHR 0x0A])
   \<and> (\<forall>r v. net api_request = Inr r \<and> status_code r = 200 \<and> json lib r = Inr v \<longrightarrow>
         exit_code (fst (run_script p lib net)) = 0)"
proof -
  have rs: "run_script p lib net = main lib net []"
    by (simp add: run_script_def hello_main_def)
  show ?thesis
    unfolding rs
    by (cases rule: main_cases [of net lib "[]"]) simp_all
qed

theorem exit_code_nonzero_iff_fault_witness:
  "exit_code (fst (run_script \<lparr>argv = [''hello_main.py''], environ = []\<rparr> mock_lib
      (mock_endpoint 404 ''true''))) = 0
   \<and> stdout (snd (run_script \<lparr>argv = [''hello_main.py''], environ = []\<rparr> mock_lib
      (mock_endpoint 404 ''true''))) = ''Failed to retrieve data.'' @ [CHR 0x0A]"
proof -
  have a: "mock_endpoint 404 ''true'' api_request = Inr \<lparr>status_code = 404, body = ''true''\<rparr>"
    by (rule mock_endpoint_answer)
  have b: "status_code \<lparr>status_code = 404, body = ''true''\<rparr> \<noteq> 200"
    by simp
  from exit_code_nonzero_iff_fault
      [of "\<lparr>argv = [''hello_main.py''], environ = []\<rparr>" mock_lib "mock_endpoint 404 ''true''"]
  have "\<forall>r. mock_endpoint 404 ''true'' api_request = Inr r \<and> status_code r \<noteq> 200 \<longrightarrow>
      exit_code (fst (run_script \<lparr>argv = [''hello_main.py''], environ = []\<rparr> mock_lib
        (mock_endpoint 404 ''true''))) = 0
      \<and> stdout (snd (run_script \<lparr>argv = [''hello_main.py''], environ = []\<rparr> mock_lib
        (mock_endpoint 404 ''true''))) = ''Failed to retrieve data.'' @ [CHR 0x0A]"
    by (rule conjunct1 [OF conjunct2])
  with a b show ?thesis
    by blast
qed

subsection \<open>Determinism\<close>

text \<open>What \<^verbatim>\<open>main\<close> does once the response is there depends on the response alone: on
  no other answer of the network, and on nothing that was in the trace before.\<close>

lemma main_depends_on_response:
  assumes "net api_request = Inr r"
  shows "main lib net tr =
    (fst (main lib (\<lambda>c. Inr r) []), tr @ snd (main lib (\<lambda>c. Inr r) []))"
proof (cases "status_code r = 200")
  case False
  with assms show ?thesis
    by (simp add: main_def requests_get_def print_def api_request_def)
next
  case True
  show ?thesis
  proof (cases "json lib r")
    case (Inl e)
    with assms True show ?thesis
      by (simp add: main_def requests_get_def response_json_def print_def api_request_def)
  next
    case (Inr v)
    with assms True show ?thesis
      by (simp add: main_def requests_get_def response_json_def print_def api_request_def)
  qed
qed

text \<open>
  C7. Two runs that receive the same response (the same status code and the same body)
  end the same way and print the same text, whatever else differs between the two
  networks and the two processes. Nothing is carried from one run to the next: called
  after any earlier trace, \<^verbatim>\<open>main\<close> adds the same events to it.
\<close>

theorem same_response_same_output:
  assumes "net api_request = Inr r" and "net' api_request = Inr r"
  shows "run_script p lib net = run_script p' lib net'
    \<and> stdout (snd (run_script p lib net)) = stdout (snd (run_script p' lib net'))
    \<and> (\<exists>out evs. main lib net tr = (out, tr @ evs) \<and> main lib net' tr' = (out, tr' @ evs))"
proof -
  have m: "main lib net t = (fst (main lib (\<lambda>c. Inr r) []), t @ snd (main lib (\<lambda>c. Inr r) []))"
    for t
    using assms(1) by (rule main_depends_on_response)
  have m': "main lib net' t = (fst (main lib (\<lambda>c. Inr r) []), t @ snd (main lib (\<lambda>c. Inr r) []))"
    for t
    using assms(2) by (rule main_depends_on_response)
  have rs: "run_script p lib net = run_script p' lib net'"
    unfolding run_script_def hello_main_def using m [of "[]"] m' [of "[]"] by simp
  have ex: "\<exists>out evs. main lib net tr = (out, tr @ evs) \<and> main lib net' tr' = (out, tr' @ evs)"
    using m [of tr] m' [of tr'] by blast
  from rs ex show ?thesis
    by simp
qed

theorem same_response_same_output_witness:
  "run_script \<lparr>argv = [''hello_main.py''], environ = []\<rparr> mock_lib (mock_endpoint 200 ''true'')
   = run_script \<lparr>argv = [''hello_main.py'', ''again''], environ = [(''RUN'', ''2'')]\<rparr> mock_lib
       (github_only 200 ''true'')"
proof -
  have a: "mock_endpoint 200 ''true'' api_request = Inr \<lparr>status_code = 200, body = ''true''\<rparr>"
    by (rule mock_endpoint_answer)
  have b: "github_only 200 ''true'' api_request = Inr \<lparr>status_code = 200, body = ''true''\<rparr>"
    by (rule github_only_answer)
  show ?thesis
    using same_response_same_output
      [where net = "mock_endpoint 200 ''true''" and net' = "github_only 200 ''true''"
         and lib = mock_lib and tr = "[]" and tr' = "[]"
         and p = "\<lparr>argv = [''hello_main.py''], environ = []\<rparr>"
         and p' = "\<lparr>argv = [''hello_main.py'', ''again''], environ = [(''RUN'', ''2'')]\<rparr>",
       OF a b]
    by (rule conjunct1)
qed

subsection \<open>Import\<close>

text \<open>
  C10. Executing the module under any name other than \<^verbatim>\<open>__main__\<close>, as an import does,
  returns without calling \<^verbatim>\<open>main\<close>: no request is sent and nothing is printed. Under
  the name \<^verbatim>\<open>__main__\<close>, as when the file is run as a script, the module calls
  \<^verbatim>\<open>main\<close>.
\<close>

theorem import_runs_nothing:
  assumes "name \<noteq> ''__main__''"
  shows "hello_main name lib net tr = (Returned, tr)
    \<and> requests_sent (snd (hello_main name lib net tr)) = requests_sent tr
    \<and> stdout (snd (hello_main name lib net tr)) = stdout tr
    \<and> hello_main ''__main__'' lib net tr = main lib net tr
    \<and> run_script p lib net = main lib net []"
  using assms by (simp add: hello_main_def run_script_def)

theorem import_runs_nothing_witness:
  "hello_main ''hello_app.hello_main'' mock_lib (mock_endpoint 200 ''true'') [] = (Returned, [])"
proof -
  have a: "''hello_app.hello_main'' \<noteq> ''__main__''"
    by simp
  show ?thesis
    using import_runs_nothing
      [where name = "''hello_app.hello_main''" and lib = mock_lib
         and net = "mock_endpoint 200 ''true''" and tr = "[]", OF a]
    by (rule conjunct1)
qed

end
